theory Spec2Isabelle
  imports Main "HOL-Library.Code_Target_Numeral"
begin

section \<open>JavaScript values\<close>

text \<open>
  The client is a React application (the token-based version of \<open>App.js\<close> with the
  routes \<open>/\<close> and \<open>/auth/callback\<close>).  Values that cross the boundary with the backend
  (response bodies, the values kept in React state) are JavaScript values.  Strings are
  kept as the bytes of their UTF-8 encoding.  Console output is not part of the model.
\<close>

datatype jsval =
    JUndefined
  | JNull
  | JBool bool
  | JNum int
  | JStr string
  | JArr "jsval list"
  | JObj "(string \<times> jsval) list"

text \<open>Truthiness, as \<open>if (v)\<close>, \<open>!v\<close>, \<open>a && b\<close> and \<open>a || b\<close> test it.\<close>

fun truthy :: "jsval \<Rightarrow> bool" where
  "truthy JUndefined = False"
| "truthy JNull = False"
| "truthy (JBool b) = b"
| "truthy (JNum n) = (n \<noteq> 0)"
| "truthy (JStr s) = (s \<noteq> [])"
| "truthy (JArr xs) = True"
| "truthy (JObj kvs) = True"

text \<open>
  Property access \<open>v.k\<close> for the property names the client reads (\<open>user\<close>, \<open>success\<close>,
  \<open>error\<close>, \<open>message\<close>, \<open>data\<close>): an object yields its property or \<open>undefined\<close>; a
  string, number, boolean or array has none of these properties.  The client reads a
  property only behind a truthiness test of the value, so \<open>null\<close> and \<open>undefined\<close>
  are never dereferenced.
\<close>

fun field :: "jsval \<Rightarrow> string \<Rightarrow> jsval" where
  "field (JObj kvs) k = (case map_of kvs k of None \<Rightarrow> JUndefined | Some v \<Rightarrow> v)"
| "field v k = JUndefined"

definition or_js :: "jsval \<Rightarrow> jsval \<Rightarrow> jsval" where
  "or_js a b = (if truthy a then a else b)"

text \<open>A value that is a string or \<open>null\<close>, as \<open>localStorage.getItem\<close> and
  \<open>URLSearchParams.get\<close> return it: \<open>None\<close> is \<open>null\<close>.\<close>

fun truthyStr :: "string option \<Rightarrow> bool" where
  "truthyStr None = False"
| "truthyStr (Some s) = (s \<noteq> [])"

section \<open>Numbers and their decimal text\<close>

text \<open>
  The numbers the client computes with (clock readings, a lifetime read by \<open>parseInt\<close>,
  their products and sums) are doubles without a fraction.  \<open>Num i\<close> is the double whose
  value is the integer \<open>i\<close>, \<open>Infinity True\<close> and \<open>Infinity False\<close> are the positive and
  the negative infinity.  \<open>toDouble\<close> is the double nearest to an integer: exact up to 53
  significant bits, beyond that rounded to 53 bits with ties to the even neighbour, and
  infinite when the rounded value reaches \<open>2^1024\<close>.
\<close>

datatype jsnum = NaN | Num int | Infinity bool

fun bitlen :: "nat \<Rightarrow> nat" where
  "bitlen n = (if n = 0 then 0 else Suc (bitlen (n div 2)))"

declare bitlen.simps [simp del]

definition toDouble :: "int \<Rightarrow> jsnum" where
  "toDouble i =
     (let m = nat \<bar>i\<bar>; k = bitlen m
      in if k \<le> 53 then Num i
         else
           let e = k - 53;
               q = m div 2 ^ e;
               r = m mod 2 ^ e;
               half = 2 ^ (e - 1);
               q' = (if half < r \<or> (r = half \<and> odd q) then q + 1 else q);
               v = q' * 2 ^ e
           in if 2 ^ 1024 \<le> v then Infinity (0 < i)
              else Num (if i < 0 then - int v else int v))"

text \<open>The operators \<open>+\<close> and \<open>*\<close> on numbers: the exact result, rounded.\<close>

fun plus_js :: "jsnum \<Rightarrow> jsnum \<Rightarrow> jsnum" where
  "plus_js NaN b = NaN"
| "plus_js a NaN = NaN"
| "plus_js (Num a) (Num b) = toDouble (a + b)"
| "plus_js (Infinity s) (Infinity t) = (if s = t then Infinity s else NaN)"
| "plus_js (Infinity s) (Num b) = Infinity s"
| "plus_js (Num a) (Infinity t) = Infinity t"

fun times_js :: "jsnum \<Rightarrow> jsnum \<Rightarrow> jsnum" where
  "times_js NaN b = NaN"
| "times_js a NaN = NaN"
| "times_js (Num a) (Num b) = toDouble (a * b)"
| "times_js (Infinity s) (Infinity t) = Infinity (s = t)"
| "times_js (Infinity s) (Num b) = (if b = 0 then NaN else Infinity (s = (0 < b)))"
| "times_js (Num a) (Infinity t) = (if a = 0 then NaN else Infinity (t = (0 < a)))"

definition digitChar :: "nat \<Rightarrow> char" where
  "digitChar d =
     (if d = 0 then CHR ''0'' else if d = 1 then CHR ''1'' else if d = 2 then CHR ''2''
      else if d = 3 then CHR ''3'' else if d = 4 then CHR ''4'' else if d = 5 then CHR ''5''
      else if d = 6 then CHR ''6'' else if d = 7 then CHR ''7'' else if d = 8 then CHR ''8''
      else CHR ''9'')"

definition isDigit :: "char \<Rightarrow> bool" where
  "isDigit c = (48 \<le> (of_char c :: nat) \<and> (of_char c :: nat) \<le> 57)"

definition digitVal :: "char \<Rightarrow> nat" where
  "digitVal c = of_char c - 48"

text \<open>All decimal digits of a natural number, and of an integer with its sign.\<close>

fun showNat :: "nat \<Rightarrow> string" where
  "showNat n = (if n < 10 then [digitChar n] else showNat (n div 10) @ [digitChar (n mod 10)])"

declare showNat.simps [simp del]

definition showInt :: "int \<Rightarrow> string" where
  "showInt i = (if i < 0 then CHR ''-'' # showNat (nat (- i)) else showNat (nat i))"

text \<open>
  \<open>Number.prototype.toString()\<close>.  For a positive double \<open>x\<close> the digits printed are those
  of the decimal \<open>s * 10^(n - k)\<close> with the fewest significant digits \<open>k\<close> that still
  rounds to \<open>x\<close>; among several, the one nearest to \<open>x\<close>, and of two equally near the one
  with even \<open>s\<close>.  \<open>candidates x p\<close> are the multiples of \<open>p\<close> next to \<open>x\<close> that round to
  \<open>x\<close>; \<open>shortestDecimal\<close> tries \<open>k = 1, 2, ...\<close>.  A decimal of up to 21 digits is printed
  in full, a longer one in exponent form.
\<close>

definition candidates :: "nat \<Rightarrow> nat \<Rightarrow> nat list" where
  "candidates x p =
     filter (\<lambda>v. toDouble (int v) = Num (int x)) [x div p * p, x div p * p + p]"

definition pick :: "nat \<Rightarrow> nat \<Rightarrow> nat" where
  "pick x p =
     (case candidates x p of
        [v] \<Rightarrow> v
      | [lo, hi] \<Rightarrow>
          if x - lo < hi - x then lo
          else if hi - x < x - lo then hi
          else if even (x div p) then lo else hi
      | _ \<Rightarrow> x)"

definition shortestDecimal :: "nat \<Rightarrow> nat" where
  "shortestDecimal x =
     (let d = length (showNat x)
      in case List.find (\<lambda>k. candidates x (10 ^ (d - k)) \<noteq> []) [1..<Suc d] of
           None \<Rightarrow> x
         | Some k \<Rightarrow> pick x (10 ^ (d - k)))"

definition showDouble :: "nat \<Rightarrow> string" where
  "showDouble x =
     (let ds = showNat (shortestDecimal x);
          n = length ds
      in if n \<le> 21 then ds
         else
           let sig = rev (dropWhile (\<lambda>c. c = CHR ''0'') (rev ds))
           in (case sig of
                 [] \<Rightarrow> ds
               | [c] \<Rightarrow> c # ''e+'' @ showNat (n - 1)
               | c # cs \<Rightarrow> c # CHR ''.'' # cs @ ''e+'' @ showNat (n - 1)))"

fun numberToString :: "jsnum \<Rightarrow> string" where
  "numberToString NaN = ''NaN''"
| "numberToString (Infinity s) = (if s then ''Infinity'' else ''-Infinity'')"
| "numberToString (Num n) =
     (if n < 0 then CHR ''-'' # showDouble (nat (- n)) else showDouble (nat n))"

text \<open>
  \<open>parseInt(s, 10)\<close>: leading white space is skipped (the white space and line
  terminator characters of the language, here in their UTF-8 encoding of one, two or
  three bytes), one sign is read, then the longest run of decimal digits; with no digit
  the result is \<open>NaN\<close>, otherwise the double nearest to the number the digits denote.
  What follows the digits is ignored.
\<close>

definition isWhiteSpace1 :: "char \<Rightarrow> bool" where
  "isWhiteSpace1 a = (a \<in> set [CHR 0x09, CHR 0x0A, CHR 0x0B, CHR 0x0C, CHR 0x0D, CHR 0x20])"

definition isWhiteSpace2 :: "char \<Rightarrow> char \<Rightarrow> bool" where
  "isWhiteSpace2 a b = (a = CHR 0xC2 \<and> b = CHR 0xA0)"

definition isWhiteSpace3 :: "char \<Rightarrow> char \<Rightarrow> char \<Rightarrow> bool" where
  "isWhiteSpace3 a b c =
     ((a = CHR 0xE1 \<and> b = CHR 0x9A \<and> c = CHR 0x80) \<or>
      (a = CHR 0xE2 \<and> b = CHR 0x80 \<and>
         ((0x80 \<le> (of_char c :: nat) \<and> (of_char c :: nat) \<le> 0x8A) \<or>
          c = CHR 0xA8 \<or> c = CHR 0xA9 \<or> c = CHR 0xAF)) \<or>
      (a = CHR 0xE2 \<and> b = CHR 0x81 \<and> c = CHR 0x9F) \<or>
      (a = CHR 0xE3 \<and> b = CHR 0x80 \<and> c = CHR 0x80) \<or>
      (a = CHR 0xEF \<and> b = CHR 0xBB \<and> c = CHR 0xBF))"

fun skipWhiteSpace :: "string \<Rightarrow> string" where
  "skipWhiteSpace (a # b # c # rest) =
     (if isWhiteSpace1 a then skipWhiteSpace (b # c # rest)
      else if isWhiteSpace2 a b then skipWhiteSpace (c # rest)
      else if isWhiteSpace3 a b c then skipWhiteSpace rest
      else a # b # c # rest)"
| "skipWhiteSpace [a, b] =
     (if isWhiteSpace1 a then skipWhiteSpace [b]
      else if isWhiteSpace2 a b then []
      else [a, b])"
| "skipWhiteSpace [a] = (if isWhiteSpace1 a then [] else [a])"
| "skipWhiteSpace [] = []"

definition digitsVal :: "string \<Rightarrow> nat" where
  "digitsVal ds = foldl (\<lambda>a c. 10 * a + digitVal c) 0 ds"

definition parseInt :: "string \<Rightarrow> jsnum" where
  "parseInt s =
     (let t = skipWhiteSpace s;
          neg = (case t of [] \<Rightarrow> False | c # r \<Rightarrow> c = CHR ''-'');
          u = (case t of [] \<Rightarrow> [] | c # r \<Rightarrow> if c = CHR ''-'' \<or> c = CHR ''+'' then r else t);
          z = takeWhile isDigit u
      in if z = [] then NaN
         else toDouble (if neg then - int (digitsVal z) else int (digitsVal z)))"

section \<open>Token storage\<close>

text \<open>\<open>localStorage\<close>: string keys to string values.\<close>

type_synonym storage = "string \<rightharpoonup> string"

definition ACCESS_TOKEN_KEY :: string where
  "ACCESS_TOKEN_KEY = ''spotify_access_token''"

definition REFRESH_TOKEN_KEY :: string where
  "REFRESH_TOKEN_KEY = ''spotify_refresh_token''"

definition EXPIRY_TIMESTAMP_KEY :: string where
  "EXPIRY_TIMESTAMP_KEY = ''spotify_expiry_timestamp''"

text \<open>
  \<open>storeTokens(accessToken, refreshToken, expiresIn)\<close>.  The arguments are strings or
  \<open>null\<close> (they come from \<open>URLSearchParams.get\<close>); \<open>now\<close> is the reading of \<open>Date.now()\<close>,
  milliseconds since the epoch.  The function has no \<open>return\<close> with a value on either
  path: the caller receives \<open>undefined\<close>, the first component of the result.
\<close>

definition storeTokens ::
  "nat \<Rightarrow> string option \<Rightarrow> string option \<Rightarrow> string option \<Rightarrow> storage \<Rightarrow> jsval \<times> storage" where
  "storeTokens now accessToken refreshToken expiresIn ls =
     (if \<not> truthyStr accessToken \<or> \<not> truthyStr expiresIn then (JUndefined, ls)
      else
        let expiryTimestamp =
              plus_js (Num (int now)) (times_js (parseInt (the expiresIn)) (Num 1000));
            ls1 = ls(ACCESS_TOKEN_KEY \<mapsto> the accessToken);
            ls2 = (if truthyStr refreshToken then ls1(REFRESH_TOKEN_KEY \<mapsto> the refreshToken)
                   else ls1(REFRESH_TOKEN_KEY := None));
            ls3 = ls2(EXPIRY_TIMESTAMP_KEY \<mapsto> numberToString expiryTimestamp)
        in (JUndefined, ls3))"

definition getAccessToken :: "storage \<Rightarrow> string option" where
  "getAccessToken ls = ls ACCESS_TOKEN_KEY"

definition getRefreshToken :: "storage \<Rightarrow> string option" where
  "getRefreshToken ls = ls REFRESH_TOKEN_KEY"

text \<open>\<open>timestamp ? parseInt(timestamp, 10) : null\<close>; \<open>None\<close> is \<open>null\<close>.\<close>

definition getExpiryTimestamp :: "storage \<Rightarrow> jsnum option" where
  "getExpiryTimestamp ls =
     (let timestamp = ls EXPIRY_TIMESTAMP_KEY
      in if truthyStr timestamp then Some (parseInt (the timestamp)) else None)"

definition clearTokens :: "storage \<Rightarrow> storage" where
  "clearTokens ls =
     ls(ACCESS_TOKEN_KEY := None, REFRESH_TOKEN_KEY := None, EXPIRY_TIMESTAMP_KEY := None)"

text \<open>
  \<open>isTokenExpired()\<close>: \<open>!expiry\<close> holds for \<open>null\<close>, \<open>NaN\<close> and \<open>0\<close>; otherwise the token
  counts as expired from 60 seconds before the recorded instant.  The difference
  \<open>expiry - 60000\<close> is taken exactly: the double it rounds to differs from it only beyond
  \<open>2^53\<close> in magnitude, where both lie on the same side of every reading \<open>Date.now()\<close>
  can give (at most \<open>8.64e15\<close>).
\<close>

definition isTokenExpired :: "nat \<Rightarrow> storage \<Rightarrow> bool" where
  "isTokenExpired now ls =
     (case getExpiryTimestamp ls of
        None \<Rightarrow> True
      | Some NaN \<Rightarrow> True
      | Some (Infinity positive) \<Rightarrow> \<not> positive
      | Some (Num expiry) \<Rightarrow> if expiry = 0 then True else int now \<ge> expiry - (60 * 1000))"

section \<open>The OAuth callback\<close>

text \<open>
  \<open>new URLSearchParams(text)\<close> and its \<open>get\<close>: one leading \<open>?\<close> is dropped, the text is
  split at \<open>&\<close>, empty pieces are skipped, each piece is split at its first \<open>=\<close>, and in
  name and value \<open>+\<close> becomes a space and \<open>%XX\<close> the byte it denotes; the bytes are then
  decoded as UTF-8, every ill-formed part giving the replacement character \<open>U+FFFD\<close>.
  \<open>get\<close> returns the value of the first pair with the name, or \<open>null\<close>.
\<close>

fun splitOn :: "char \<Rightarrow> string \<Rightarrow> string list" where
  "splitOn d [] = [[]]"
| "splitOn d (c # cs) =
     (if c = d then [] # splitOn d cs
      else (case splitOn d cs of [] \<Rightarrow> [[c]] | x # xs \<Rightarrow> (c # x) # xs))"

definition hexVal :: "char \<Rightarrow> nat option" where
  "hexVal c =
     (let n = (of_char c :: nat)
      in if 48 \<le> n \<and> n \<le> 57 then Some (n - 48)
         else if 65 \<le> n \<and> n \<le> 70 then Some (n - 55)
         else if 97 \<le> n \<and> n \<le> 102 then Some (n - 87)
         else None)"

fun percentDecode :: "string \<Rightarrow> string" where
  "percentDecode (c # h # l # rest) =
     (if c = CHR ''%'' then
        (case (hexVal h, hexVal l) of
           (Some a, Some b) \<Rightarrow> char_of (16 * a + b) # percentDecode rest
         | _ \<Rightarrow> c # percentDecode (h # l # rest))
      else c # percentDecode (h # l # rest))"
| "percentDecode (c # cs) = c # percentDecode cs"
| "percentDecode [] = []"

text \<open>
  UTF-8 decoding, on the encoded text: a well-formed sequence is kept, an ill-formed part
  becomes \<open>replacementChar\<close>.  \<open>leadByte\<close> gives, for the first byte of a sequence of
  several bytes, how many bytes follow and the range allowed for the next one;
  \<open>utf8Decode\<close> carries the count of bytes still needed, that range, and the bytes of the
  sequence read so far.  A byte outside the range ends the sequence as ill-formed and is
  read again as the start of the next one.
\<close>

definition replacementChar :: string where
  "replacementChar = [CHR 0xEF, CHR 0xBF, CHR 0xBD]"

definition leadByte :: "nat \<Rightarrow> (nat \<times> nat \<times> nat) option" where
  "leadByte b =
     (if 0xC2 \<le> b \<and> b \<le> 0xDF then Some (1, 0x80, 0xBF)
      else if b = 0xE0 then Some (2, 0xA0, 0xBF)
      else if b = 0xED then Some (2, 0x80, 0x9F)
      else if 0xE1 \<le> b \<and> b \<le> 0xEF then Some (2, 0x80, 0xBF)
      else if b = 0xF0 then Some (3, 0x90, 0xBF)
      else if b = 0xF4 then Some (3, 0x80, 0x8F)
      else if 0xF1 \<le> b \<and> b \<le> 0xF3 then Some (3, 0x80, 0xBF)
      else None)"

fun utf8Decode :: "nat \<Rightarrow> nat \<Rightarrow> nat \<Rightarrow> string \<Rightarrow> string \<Rightarrow> string" where
  "utf8Decode needed lower upper seen [] = (if needed = 0 then [] else replacementChar)"
| "utf8Decode needed lower upper seen (b # bs) =
     (if needed \<noteq> 0 \<and> lower \<le> (of_char b :: nat) \<and> (of_char b :: nat) \<le> upper then
        (if needed = 1 then seen @ [b] @ utf8Decode 0 0x80 0xBF [] bs
         else utf8Decode (needed - 1) 0x80 0xBF (seen @ [b]) bs)
      else
        (if needed = 0 then [] else replacementChar) @
        (if (of_char b :: nat) \<le> 0x7F then b # utf8Decode 0 0x80 0xBF [] bs
         else if leadByte (of_char b) = None then replacementChar @ utf8Decode 0 0x80 0xBF [] bs
         else utf8Decode (fst (the (leadByte (of_char b))))
                (fst (snd (the (leadByte (of_char b)))))
                (snd (snd (the (leadByte (of_char b))))) [b] bs))"

definition formDecode :: "string \<Rightarrow> string" where
  "formDecode s =
     utf8Decode 0 0x80 0xBF []
       (percentDecode (map (\<lambda>c. if c = CHR ''+'' then CHR '' '' else c) s))"

definition parsePair :: "string \<Rightarrow> string \<times> string" where
  "parsePair piece =
     (let name = takeWhile (\<lambda>c. c \<noteq> CHR ''='') piece;
          rest = dropWhile (\<lambda>c. c \<noteq> CHR ''='') piece
      in (formDecode name, formDecode (drop 1 rest)))"

definition URLSearchParams :: "string \<Rightarrow> (string \<times> string) list" where
  "URLSearchParams init =
     (let text = (case init of [] \<Rightarrow> [] | c # cs \<Rightarrow> if c = CHR ''?'' then cs else init)
      in map parsePair (filter (\<lambda>piece. piece \<noteq> []) (splitOn CHR ''&'' text)))"

definition params_get :: "(string \<times> string) list \<Rightarrow> string \<Rightarrow> string option" where
  "params_get params name = map_of params name"

text \<open>\<open>s.replace(/_/g, ' ')\<close>\<close>

definition replaceUnderscores :: "string \<Rightarrow> string" where
  "replaceUnderscores s = map (\<lambda>c. if c = CHR ''_'' then CHR '' '' else c) s"

text \<open>
  What the effect of the \<open>AuthCallback\<close> component leaves behind: the token storage, the
  component's own \<open>authError\<close> state, and the navigation it performed (\<open>navigate(path,
  {state: {authError}})\<close>; \<open>None\<close> when no state is passed).
\<close>

record callback_result =
  cb_storage :: storage
  authError :: "string option"
  navigatePath :: string
  navigateAuthError :: "string option"

text \<open>
  The effect of \<open>AuthCallback\<close>, run with \<open>location.hash\<close> (empty, or \<open>#\<close> and the
  fragment as the browser serialises it).
\<close>

definition AuthCallback :: "nat \<Rightarrow> string \<Rightarrow> storage \<Rightarrow> callback_result" where
  "AuthCallback now hash ls =
     (let params = URLSearchParams (drop 1 hash);
          accessToken = params_get params ''access_token'';
          refreshToken = params_get params ''refresh_token'';
          expiresIn = params_get params ''expires_in'';
          errorParam = params_get params ''error''
      in if truthyStr errorParam then
           \<lparr>cb_storage = clearTokens ls,
            authError = Some (''Login failed: '' @ replaceUnderscores (the errorParam)
                              @ ''. Please try again.''),
            navigatePath = ''/'',
            navigateAuthError = Some (''Login failed: '' @ replaceUnderscores (the errorParam)
                                      @ ''.'')\<rparr>
         else if truthyStr accessToken \<and> truthyStr expiresIn then
           \<lparr>cb_storage = snd (storeTokens now accessToken refreshToken expiresIn ls),
            authError = None,
            navigatePath = ''/'',
            navigateAuthError = None\<rparr>
         else
           \<lparr>cb_storage = ls,
            authError = Some
              ''Authentication callback did not provide necessary tokens or error information.'',
            navigatePath = ''/'',
            navigateAuthError = Some ''Invalid authentication callback received.''\<rparr>)"

section \<open>The gateway client\<close>

text \<open>
  A request configuration as axios hands it to its transport; \<open>req_url\<close> is relative to
  the instance's base URL \<open>API_BASE_URL/api\<close>.
\<close>

record request =
  req_method :: string
  req_url :: string
  req_data :: jsval
  req_headers :: "string \<rightharpoonup> string"

text \<open>The \<open>options\<close> argument of \<open>fetchAPI\<close>; an absent \<open>headers\<close> is the empty map.\<close>

record options =
  opt_method :: "string option"
  opt_body :: jsval
  opt_headers :: "string \<rightharpoonup> string"

text \<open>
  What the transport makes of a request: an HTTP response (status and parsed body), no
  response at all, or a failure while setting the request up (with the error's message).
  axios resolves a response whose status is in \<open>200..299\<close> and rejects everything else.
\<close>

datatype outcome = Response nat jsval | NoResponse | SetupError string

text \<open>
  The state the main component works on: \<open>localStorage\<close>, the list of requests handed to
  the transport so far, and the React state of \<open>MainApp\<close>.
\<close>

record world =
  localStorage :: storage
  network :: "request list"
  isLoggedIn :: bool
  userData :: jsval
  playlistUrl :: string
  playlistName :: string
  isAuthLoading :: bool
  isConverting :: bool
  error :: jsval
  results :: jsval

text \<open>
  The request interceptor.  Its two tests of \<open>isTokenExpired()\<close> run in one synchronous
  block and read the clock as one value \<open>now\<close>.
\<close>

definition requestInterceptor :: "nat \<Rightarrow> request \<Rightarrow> storage \<Rightarrow> request \<times> storage" where
  "requestInterceptor now config ls =
     (let token = getAccessToken ls
      in if truthyStr token \<and> \<not> isTokenExpired now ls then
           (config\<lparr>req_headers := (req_headers config)(''Authorization'' \<mapsto> ''Bearer '' @ the token)\<rparr>,
            ls)
         else if truthyStr token \<and> isTokenExpired now ls then (config, clearTokens ls)
         else (config, ls))"

text \<open>The configuration \<open>fetchAPI\<close> builds, merged with the defaults of \<open>apiClient\<close>.\<close>

definition buildConfig :: "string \<Rightarrow> options \<Rightarrow> request" where
  "buildConfig endpoint opts =
     \<lparr>req_method = (if truthyStr (opt_method opts) then the (opt_method opts) else ''GET''),
      req_url = endpoint,
      req_data = opt_body opts,
      req_headers = [''Content-Type'' \<mapsto> ''application/json''] ++ opt_headers opts\<rparr>"

text \<open>The \<open>catch\<close> block of \<open>fetchAPI\<close>; \<open>err\<close> is what axios rejected with.\<close>

definition fetchAPI_catch :: "outcome \<Rightarrow> world \<Rightarrow> jsval \<times> world" where
  "fetchAPI_catch err w =
     (case err of
        Response status errorData \<Rightarrow>
          if status = 401 then
            (JNull,
             w\<lparr>localStorage := clearTokens (localStorage w), isLoggedIn := False,
               userData := JNull,
               error := JStr ''Your session has expired or is invalid. Please log in again.'',
               isAuthLoading := False, isConverting := False\<rparr>)
          else if truthy errorData then
            (JNull,
             w\<lparr>error := or_js (field errorData ''message'')
                          (or_js (field errorData ''error'')
                             (JStr (''Request failed with status '' @ showNat status))),
               isAuthLoading := False, isConverting := False\<rparr>)
          else
            (JNull,
             w\<lparr>error := JStr ''No response received from server. Check network or server status.'',
               isAuthLoading := False, isConverting := False\<rparr>)
      | NoResponse \<Rightarrow>
          (JNull,
           w\<lparr>error := JStr ''No response received from server. Check network or server status.'',
             isAuthLoading := False, isConverting := False\<rparr>)
      | SetupError message \<Rightarrow>
          (JNull, w\<lparr>error := JStr message, isAuthLoading := False, isConverting := False\<rparr>))"

text \<open>
  \<open>fetchAPI(endpoint, options)\<close>: \<open>now\<close> is the clock when the interceptor runs and
  \<open>backend\<close> answers the request that leaves the interceptor.
\<close>

definition fetchAPI ::
  "nat \<Rightarrow> (request \<Rightarrow> outcome) \<Rightarrow> string \<Rightarrow> options \<Rightarrow> world \<Rightarrow> jsval \<times> world" where
  "fetchAPI now backend endpoint opts w =
     (let config = buildConfig endpoint opts;
          sent = fst (requestInterceptor now config (localStorage w));
          w1 = w\<lparr>localStorage := snd (requestInterceptor now config (localStorage w)),
                 network := network w @ [sent]\<rparr>
      in case backend sent of
           Response status d \<Rightarrow>
             if 200 \<le> status \<and> status < 300 then (d, w1)
             else fetchAPI_catch (Response status d) w1
         | NoResponse \<Rightarrow> fetchAPI_catch NoResponse w1
         | SetupError message \<Rightarrow> fetchAPI_catch (SetupError message) w1)"

section \<open>The session controller and the conversion workflow\<close>

definition noOptions :: options where
  "noOptions = \<lparr>opt_method = None, opt_body = JUndefined, opt_headers = Map.empty\<rparr>"

text \<open>
  \<open>checkAuthStatus()\<close>: \<open>now\<close> is the clock at the test of the stored token and
  \<open>nowSent\<close> the clock when the request passes the interceptor.  \<open>fetchAPI\<close> catches
  every rejection itself, so the \<open>catch\<close> block here is never entered.
\<close>

definition checkAuthStatus :: "nat \<Rightarrow> nat \<Rightarrow> (request \<Rightarrow> outcome) \<Rightarrow> world \<Rightarrow> world" where
  "checkAuthStatus now nowSent backend w =
     (let w0 = w\<lparr>isAuthLoading := True, error := JNull\<rparr>;
          token = getAccessToken (localStorage w0)
      in if \<not> truthyStr token \<or> isTokenExpired now (localStorage w0) then
           w0\<lparr>localStorage := clearTokens (localStorage w0), isLoggedIn := False,
              userData := JNull, isAuthLoading := False\<rparr>
         else
           let r = fetchAPI nowSent backend ''/auth/status'' noOptions w0;
               data = fst r;
               w1 = snd r
           in if truthy data \<and> truthy (field data ''user'') then
                w1\<lparr>isLoggedIn := True, userData := field data ''user'', isAuthLoading := False\<rparr>
              else
                w1\<lparr>localStorage := clearTokens (localStorage w1), isLoggedIn := False,
                   userData := JNull, isAuthLoading := False\<rparr>)"

definition handleLogout :: "world \<Rightarrow> world" where
  "handleLogout w =
     w\<lparr>localStorage := clearTokens (localStorage w), isLoggedIn := False, userData := JNull,
       error := JNull, results := JNull\<rparr>"

text \<open>The body \<open>handleConvert\<close> posts.\<close>

definition postData :: "world \<Rightarrow> jsval" where
  "postData w =
     JObj [(''playlist_url'', JStr (playlistUrl w)),
           (''playlist_name'',
            JStr (if playlistName w \<noteq> [] then playlistName w
                  else ''Converted YouTube Playlist''))]"

definition handleConvert :: "nat \<Rightarrow> (request \<Rightarrow> outcome) \<Rightarrow> world \<Rightarrow> world" where
  "handleConvert now backend w =
     (let w0 = w\<lparr>isConverting := True, error := JNull, results := JNull\<rparr>;
          r = fetchAPI now backend ''/convert''
                \<lparr>opt_method = Some ''POST'', opt_body = postData w, opt_headers = Map.empty\<rparr> w0;
          data = fst r;
          w1 = snd r;
          w2 = (if truthy data \<and> truthy (field data ''success'') then
                  w1\<lparr>results := field data ''data'', playlistUrl := [], playlistName := []\<rparr>
                else if truthy data \<and> truthy (field data ''error'') then
                  (if truthy (field data ''data'')
                   then w1\<lparr>error := field data ''error'', results := field data ''data''\<rparr>
                   else w1\<lparr>error := field data ''error''\<rparr>)
                else w1)
      in w2\<lparr>isConverting := False\<rparr>)"

section \<open>Concrete states for the examples\<close>

text \<open>A browser that holds the tokens of an earlier login, expiring at instant 100000.\<close>

definition storedSession :: storage where
  "storedSession =
     [ACCESS_TOKEN_KEY \<mapsto> ''T'', REFRESH_TOKEN_KEY \<mapsto> ''R'',
      EXPIRY_TIMESTAMP_KEY \<mapsto> ''100000'']"

definition loggedInWorld :: world where
  "loggedInWorld =
     \<lparr>localStorage = storedSession, network = [], isLoggedIn = True,
      userData = JObj [(''id'', JStr ''u1'')],
      playlistUrl = ''https://music.youtube.com/playlist?list=PL1'', playlistName = [],
      isAuthLoading = False, isConverting = False, error = JNull, results = JNull\<rparr>"

text \<open>The main component as it mounts: the same storage, initial React state.\<close>

definition mountedWorld :: world where
  "mountedWorld =
     \<lparr>localStorage = storedSession, network = [], isLoggedIn = False, userData = JNull,
      playlistUrl = [], playlistName = [], isAuthLoading = True, isConverting = False,
      error = JNull, results = JNull\<rparr>"

text \<open>A backend that answers every request the same way.\<close>

definition answering :: "outcome \<Rightarrow> request \<Rightarrow> outcome" where
  "answering out req = out"

text \<open>The data payload of a conversion that matched nothing.\<close>

definition partialPayload :: jsval where
  "partialPayload =
     JObj [(''unmatched_tracks'', JArr [JStr ''Song A'']), (''api_errors'', JArr [])]"

section \<open>Facts about the numbers and the token storage\<close>

lemma bitlen_le: "bitlen n \<le> k \<longleftrightarrow> n < 2 ^ k"
proof (induction n arbitrary: k rule: bitlen.induct)
  case (1 n)
  show ?case
  proof (cases "n = 0")
    case True
    then show ?thesis by (simp add: bitlen.simps)
  next
    case False
    show ?thesis
    proof (cases k)
      case 0
      with False show ?thesis by (simp add: bitlen.simps [of n])
    next
      case (Suc j)
      have "bitlen n \<le> Suc j \<longleftrightarrow> bitlen (n div 2) \<le> j"
        using False by (simp add: bitlen.simps [of n])
      also have "\<dots> \<longleftrightarrow> n div 2 < 2 ^ j"
        using 1 [OF False] by simp
      also have "\<dots> \<longleftrightarrow> n < 2 ^ Suc j"
        by auto
      finally show ?thesis by (simp add: Suc)
    qed
  qed
qed

lemma bitlen_lower: "n \<noteq> 0 \<Longrightarrow> 2 ^ (bitlen n - 1) \<le> n"
proof -
  assume n: "n \<noteq> 0"
  then have pos: "0 < bitlen n" by (simp add: bitlen.simps [of n])
  have "\<not> bitlen n \<le> bitlen n - 1" using pos by simp
  then have "\<not> n < 2 ^ (bitlen n - 1)" by (simp add: bitlen_le)
  then show ?thesis by simp
qed

text \<open>Below \<open>2^53\<close> in magnitude every integer is a double.\<close>

lemma toDouble_exact: "\<bar>i\<bar> < 2 ^ 53 \<Longrightarrow> toDouble i = Num i"
proof -
  assume "\<bar>i\<bar> < 2 ^ 53"
  then have "nat \<bar>i\<bar> < 2 ^ 53" by (simp add: nat_less_iff)
  then have "bitlen (nat \<bar>i\<bar>) \<le> 53" by (simp only: bitlen_le)
  then show ?thesis by (simp add: toDouble_def Let_def)
qed

text \<open>A natural number from \<open>2^53\<close> on never rounds to one below \<open>2^53\<close>.\<close>

lemma toDouble_large:
  assumes "2 ^ 53 \<le> v" and "toDouble (int v) = Num j"
  shows "2 ^ 53 \<le> j"
proof -
  define e where "e = bitlen v - 53"
  define q where "q = v div 2 ^ e"
  define q' where
    "q' = (if 2 ^ (e - 1) < v mod 2 ^ e \<or> (v mod 2 ^ e = 2 ^ (e - 1) \<and> odd q) then q + 1 else q)"
  have k: "\<not> bitlen v \<le> 53" using assms(1) by (simp add: bitlen_le)
  have v0: "v \<noteq> 0" using assms(1) by auto
  have low: "2 ^ (bitlen v - 1) \<le> v" using v0 by (rule bitlen_lower)
  have "bitlen v - 1 = 52 + e" using k by (simp add: e_def)
  then have "(2::nat) ^ (bitlen v - 1) = 2 ^ 52 * 2 ^ e"
    by (simp only: power_add)
  with low have "2 ^ 52 * 2 ^ e \<le> v" by simp
  then have q: "2 ^ 52 \<le> q"
    by (simp add: q_def less_eq_div_iff_mult_less_eq)
  have "0 < e" using k by (simp add: e_def)
  then have e: "(2::nat) \<le> 2 ^ e"
    using self_le_power [of 2 e] by simp
  have q': "q \<le> q'" by (simp add: q'_def)
  have "(2::nat) ^ 53 = 2 ^ 52 * 2" by simp
  also have "\<dots> \<le> q' * 2 ^ e"
    using q q' e by (intro mult_le_mono) auto
  finally have big: "(2::nat) ^ 53 \<le> q' * 2 ^ e" .
  have res: "toDouble (int v) = (if 2 ^ 1024 \<le> q' * 2 ^ e then Infinity (0 < int v)
                                  else Num (int (q' * 2 ^ e)))"
    using k unfolding toDouble_def Let_def q'_def q_def e_def by simp
  have "j = int (q' * 2 ^ e)"
  proof (cases "2 ^ 1024 \<le> q' * 2 ^ e")
    case True
    with res assms(2) show ?thesis by simp
  next
    case False
    with res assms(2) show ?thesis by simp
  qed
  with big show ?thesis
    by (metis of_nat_le_iff of_nat_numeral of_nat_power)
qed

lemma toDouble_small:
  assumes "toDouble (int v) = Num (int x)" and "x < 2 ^ 53"
  shows "v = x"
proof (cases "v < 2 ^ 53")
  case True
  then have "toDouble (int v) = Num (int v)"
    by (intro toDouble_exact) simp
  with assms(1) show ?thesis by simp
next
  case False
  then have "2 ^ 53 \<le> v" by simp
  from toDouble_large [OF this assms(1)] have "(2::int) ^ 53 \<le> int x" .
  with assms(2) show ?thesis
    by (metis not_less of_nat_le_iff of_nat_numeral of_nat_power)
qed

lemma candidates_small:
  assumes "x < 2 ^ 53" and "v \<in> set (candidates x p)"
  shows "v = x"
  using assms toDouble_small [of v x] by (auto simp: candidates_def split: if_splits)

lemma pick_small: "x < 2 ^ 53 \<Longrightarrow> pick x p = x"
proof -
  assume x: "x < 2 ^ 53"
  have all: "\<And>v. v \<in> set (candidates x p) \<Longrightarrow> v = x"
    using x by (rule candidates_small)
  show ?thesis
  proof (cases "candidates x p")
    case Nil
    then show ?thesis by (simp add: pick_def)
  next
    case (Cons a as)
    then have a: "a = x" using all by simp
    show ?thesis
    proof (cases as)
      case Nil
      with Cons a show ?thesis by (simp add: pick_def)
    next
      case (Cons b bs)
      then have b: "b = x" using all \<open>candidates x p = a # as\<close> by simp
      show ?thesis
        using \<open>candidates x p = a # as\<close> Cons a b
        by (simp add: pick_def split: list.splits)
    qed
  qed
qed

lemma shortestDecimal_small: "x < 2 ^ 53 \<Longrightarrow> shortestDecimal x = x"
  by (simp add: shortestDecimal_def Let_def pick_small split: option.splits)

lemma length_showNat: "0 < m \<Longrightarrow> x < 10 ^ m \<Longrightarrow> length (showNat x) \<le> m"
proof (induction x arbitrary: m rule: showNat.induct)
  case (1 n)
  show ?case
  proof (cases "n < 10")
    case True
    with 1(2) show ?thesis by (subst showNat.simps) simp
  next
    case False
    obtain j where m: "m = Suc j" using 1(2) by (cases m) auto
    have j: "0 < j" using False 1(3) m by (cases j) auto
    have "n div 10 < 10 ^ j" using 1(3) m by (simp add: div_less_iff_less_mult mult.commute)
    from 1(1) [OF False j this] show ?thesis
      using False m by (subst showNat.simps) simp
  qed
qed

lemma showDouble_small: "x < 2 ^ 53 \<Longrightarrow> showDouble x = showNat x"
proof -
  assume x: "x < 2 ^ 53"
  then have "x < 10 ^ 21" by simp
  then have "length (showNat x) \<le> 21" by (intro length_showNat) simp_all
  then show ?thesis using x by (simp add: showDouble_def Let_def shortestDecimal_small)
qed

text \<open>Below \<open>2^53\<close> in magnitude a number is printed with all its digits.\<close>

lemma numberToString_small: "\<bar>i\<bar> < 2 ^ 53 \<Longrightarrow> numberToString (Num i) = showInt i"
proof -
  assume i: "\<bar>i\<bar> < 2 ^ 53"
  then have "nat \<bar>i\<bar> < 2 ^ 53" by (simp add: nat_less_iff)
  then show ?thesis
    by (cases "i < 0") (simp_all add: showInt_def showDouble_small)
qed

lemma digitVal_digitChar: "d < 10 \<Longrightarrow> digitVal (digitChar d) = d"
  by (simp add: digitVal_def digitChar_def)

lemma isDigit_digitChar: "d < 10 \<Longrightarrow> isDigit (digitChar d)"
  by (simp add: isDigit_def digitChar_def)

lemma showNat_digits: "\<forall>c \<in> set (showNat n). isDigit c"
proof (induction n rule: showNat.induct)
  case (1 n)
  show ?case
  proof (cases "n < 10")
    case True
    then show ?thesis by (subst showNat.simps) (simp add: isDigit_digitChar)
  next
    case False
    with 1 show ?thesis by (subst showNat.simps) (simp add: isDigit_digitChar)
  qed
qed

lemma showNat_nonempty: "showNat n \<noteq> []"
  by (subst showNat.simps) simp

lemma showInt_nonempty: "showInt i \<noteq> []"
  by (simp add: showInt_def showNat_nonempty)

lemma digitsVal_snoc: "digitsVal (ds @ [c]) = 10 * digitsVal ds + digitVal c"
  by (simp add: digitsVal_def)

lemma digitsVal_showNat: "digitsVal (showNat n) = n"
proof (induction n rule: showNat.induct)
  case (1 n)
  show ?case
  proof (cases "n < 10")
    case True
    then show ?thesis by (subst showNat.simps) (simp add: digitsVal_def digitVal_digitChar)
  next
    case False
    with 1 show ?thesis
      by (subst showNat.simps) (simp add: digitsVal_snoc digitVal_digitChar)
  qed
qed

text \<open>White space is not skipped past a digit or a sign.\<close>

lemma skipWhiteSpace_plain:
  assumes "isDigit c \<or> c = CHR ''-''"
  shows "skipWhiteSpace (c # r) = c # r"
proof -
  have c: "\<not> isWhiteSpace1 c" "\<And>b. \<not> isWhiteSpace2 c b" "\<And>b d. \<not> isWhiteSpace3 c b d"
    using assms
    by (auto simp: isDigit_def isWhiteSpace1_def isWhiteSpace2_def isWhiteSpace3_def)
  show ?thesis
  proof (cases r)
    case Nil
    then show ?thesis using c by simp
  next
    case (Cons b r')
    then show ?thesis using c by (cases r') simp_all
  qed
qed

lemma isDigit_plain: "isDigit c \<Longrightarrow> c \<noteq> CHR ''-'' \<and> c \<noteq> CHR ''+''"
  by (auto simp: isDigit_def)

lemma takeWhile_all: "\<forall>x \<in> set xs. P x \<Longrightarrow> takeWhile P xs = xs"
  by (simp add: takeWhile_eq_all_conv)

lemma parseInt_showNat: "parseInt (showNat n) = toDouble (int n)"
proof -
  obtain c r where cr: "showNat n = c # r"
    using showNat_nonempty [of n] by (cases "showNat n") auto
  have all: "\<forall>c \<in> set (c # r). isDigit c"
    using showNat_digits [of n] by (simp only: cr)
  then have c: "isDigit c" by simp
  from all have tw: "takeWhile isDigit r = r"
    by (intro takeWhile_all) simp
  have skip: "skipWhiteSpace (c # r) = c # r"
    using c by (intro skipWhiteSpace_plain) simp
  have "parseInt (c # r) = toDouble (int (digitsVal (c # r)))"
    using isDigit_plain [OF c] c
    by (simp add: parseInt_def Let_def tw skip)
  then show ?thesis by (simp add: cr [symmetric] digitsVal_showNat)
qed

lemma parseInt_neg_showNat: "parseInt (CHR ''-'' # showNat n) = toDouble (- int n)"
proof -
  have tw: "takeWhile isDigit (showNat n) = showNat n"
    by (rule takeWhile_all) (rule showNat_digits)
  have skip: "skipWhiteSpace (CHR ''-'' # showNat n) = CHR ''-'' # showNat n"
    by (intro skipWhiteSpace_plain) simp
  have "parseInt (CHR ''-'' # showNat n) =
        (if takeWhile isDigit (showNat n) = [] then NaN
         else toDouble (- int (digitsVal (takeWhile isDigit (showNat n)))))"
    by (simp add: parseInt_def Let_def skip)
  then show ?thesis
    by (simp only: tw showNat_nonempty digitsVal_showNat if_False)
qed

text \<open>Reading the decimal text of an integer gives the double nearest to it.\<close>

lemma parseInt_showInt: "parseInt (showInt i) = toDouble i"
  by (simp add: showInt_def parseInt_showNat parseInt_neg_showNat)

text \<open>Below \<open>2^53\<close> in magnitude, reading back the text of a number gives the number.\<close>

lemma parseInt_numberToString:
  "\<bar>i\<bar> < 2 ^ 53 \<Longrightarrow> parseInt (numberToString (Num i)) = Num i"
proof -
  assume i: "\<bar>i\<bar> < 2 ^ 53"
  have "numberToString (Num i) = showInt i"
    using i by (rule numberToString_small)
  then show ?thesis
    by (simp only: parseInt_showInt toDouble_exact [OF i])
qed

lemma parseInt_Num_nonempty: "parseInt t = Num e \<Longrightarrow> t \<noteq> []"
  by (auto simp: parseInt_def)

lemma keys_distinct:
  "ACCESS_TOKEN_KEY \<noteq> REFRESH_TOKEN_KEY" "ACCESS_TOKEN_KEY \<noteq> EXPIRY_TIMESTAMP_KEY"
  "REFRESH_TOKEN_KEY \<noteq> EXPIRY_TIMESTAMP_KEY" "REFRESH_TOKEN_KEY \<noteq> ACCESS_TOKEN_KEY"
  "EXPIRY_TIMESTAMP_KEY \<noteq> ACCESS_TOKEN_KEY" "EXPIRY_TIMESTAMP_KEY \<noteq> REFRESH_TOKEN_KEY"
  by (simp_all add: ACCESS_TOKEN_KEY_def REFRESH_TOKEN_KEY_def EXPIRY_TIMESTAMP_KEY_def)

lemma clearTokens_keys:
  "clearTokens ls ACCESS_TOKEN_KEY = None"
  "clearTokens ls REFRESH_TOKEN_KEY = None"
  "clearTokens ls EXPIRY_TIMESTAMP_KEY = None"
  by (simp_all add: clearTokens_def)

lemma parseInt_100000: "parseInt ''100000'' = Num 100000"
  by (simp add: parseInt_def isWhiteSpace1_def isWhiteSpace2_def isWhiteSpace3_def isDigit_def
        digitsVal_def digitVal_def toDouble_exact)

lemma parseInt_3600: "parseInt ''3600'' = Num 3600"
  by (simp add: parseInt_def isWhiteSpace1_def isWhiteSpace2_def isWhiteSpace3_def isDigit_def
        digitsVal_def digitVal_def toDouble_exact)

lemma storedSession_token: "getAccessToken storedSession = Some ''T''"
  by (simp add: storedSession_def getAccessToken_def keys_distinct)

lemma storedSession_expiry: "getExpiryTimestamp storedSession = Some (Num 100000)"
  by (simp add: storedSession_def getExpiryTimestamp_def keys_distinct parseInt_100000)

lemma storedSession_expired: "isTokenExpired now storedSession = (40000 \<le> now)"
  by (auto simp add: isTokenExpired_def storedSession_expiry)

lemma loggedInWorld_storage: "localStorage loggedInWorld = storedSession"
  by (simp add: loggedInWorld_def)

lemma mountedWorld_storage: "localStorage mountedWorld = storedSession"
  by (simp add: mountedWorld_def)

section \<open>Facts about the gateway client\<close>

lemma truthy_field: "truthy (field d k) \<Longrightarrow> truthy d"
  by (cases d) simp_all

lemma interceptor_cases:
  "requestInterceptor now config ls =
     (if truthyStr (getAccessToken ls) \<and> \<not> isTokenExpired now ls
      then (config\<lparr>req_headers := (req_headers config)(''Authorization'' \<mapsto>
                ''Bearer '' @ the (getAccessToken ls))\<rparr>, ls)
      else if truthyStr (getAccessToken ls) then (config, clearTokens ls)
      else (config, ls))"
  by (simp add: requestInterceptor_def Let_def)

lemma buildConfig_auth:
  "req_headers (buildConfig endpoint opts) ''Authorization'' = opt_headers opts ''Authorization''"
  by (simp add: buildConfig_def map_add_def split: option.splits)

lemma noOptions_headers: "opt_headers noOptions ''Authorization'' = None"
  by (simp add: noOptions_def)

text \<open>Every call of \<open>fetchAPI\<close> hands exactly one request to the transport.\<close>

lemma fetchAPI_network:
  "network (snd (fetchAPI now backend endpoint opts w)) =
     network w @ [fst (requestInterceptor now (buildConfig endpoint opts) (localStorage w))]"
  by (simp add: fetchAPI_def fetchAPI_catch_def Let_def split: outcome.splits)

lemma fetchAPI_sent:
  "last (network (snd (fetchAPI now backend endpoint opts w))) =
     fst (requestInterceptor now (buildConfig endpoint opts) (localStorage w))"
  by (simp add: fetchAPI_network)

lemma fetchAPI_storage_expired:
  assumes "truthyStr (getAccessToken (localStorage w))" "isTokenExpired now (localStorage w)"
  shows "localStorage (snd (fetchAPI now backend endpoint opts w)) = clearTokens (localStorage w)"
  using assms
  by (simp add: fetchAPI_def fetchAPI_catch_def Let_def interceptor_cases clearTokens_def
           split: outcome.splits)

lemma handleConvert_network:
  "network (handleConvert now backend w) =
     network w @ [fst (requestInterceptor now
        (buildConfig ''/convert''
           \<lparr>opt_method = Some ''POST'', opt_body = postData w, opt_headers = Map.empty\<rparr>)
        (localStorage w))]"
  by (simp add: handleConvert_def Let_def fetchAPI_network)

text \<open>The fragment of the specification's example, parsed.\<close>

lemma params_example:
  "URLSearchParams (drop 1 ''#access_token=A&expires_in=3600'') =
     [(''access_token'', ''A''), (''expires_in'', ''3600'')]"
  by (simp add: URLSearchParams_def parsePair_def formDecode_def)

section \<open>Beyond the exact range\<close>

text \<open>
  From \<open>2^53\<close> on the numbers round, from \<open>10^21\<close> on they are printed in exponent form,
  and an ill-formed escape decodes to \<open>U+FFFD\<close>.  Three callbacks show what the handler
  stores then.
\<close>

lemma bitlen_numeral: "bitlen (numeral n) = Suc (bitlen (numeral n div 2))"
  by (subst bitlen.simps) simp

lemma bitlen_0: "bitlen 0 = 0"
  by (simp add: bitlen.simps)

lemma bitlen_1: "bitlen (Suc 0) = Suc 0"
  by (simp add: bitlen.simps)

lemmas eval_double = toDouble_def Let_def bitlen_numeral bitlen_0 bitlen_1

lemma upt_first: "[1..<Suc d] = (if d = 0 then [] else 1 # [2..<Suc d])"
  by (simp add: upt_conv_Cons numeral_2_eq_2 del: upt_Suc)

text \<open>A lifetime of \<open>2^53 + 1\<close> seconds: read as \<open>2^53\<close>, and the sum is rounded again.\<close>

lemma parseInt_rounds: "parseInt ''9007199254740993'' = Num 9007199254740992"
  by (simp add: parseInt_def isWhiteSpace1_def isWhiteSpace2_def isWhiteSpace3_def isDigit_def
        digitsVal_def digitVal_def eval_double)

lemma sum_rounds:
  "plus_js (Num 1000) (times_js (Num 9007199254740992) (Num 1000)) = Num 9007199254740993024"
  by (simp add: eval_double)

lemma candidates_rounded:
  "candidates 9007199254740993024 1000000000000000000 = []"
  "candidates 9007199254740993024 100000000000000000 = []"
  "candidates 9007199254740993024 10000000000000000 = []"
  "candidates 9007199254740993024 1000000000000000 = []"
  "candidates 9007199254740993024 100000000000000 = []"
  "candidates 9007199254740993024 10000000000000 = []"
  "candidates 9007199254740993024 1000000000000 = []"
  "candidates 9007199254740993024 100000000000 = []"
  "candidates 9007199254740993024 10000000000 = []"
  "candidates 9007199254740993024 1000000000 = []"
  "candidates 9007199254740993024 100000000 = []"
  "candidates 9007199254740993024 10000000 = []"
  "candidates 9007199254740993024 1000000 = []"
  "candidates 9007199254740993024 100000 = []"
  "candidates 9007199254740993024 10000 = []"
  "candidates 9007199254740993024 1000 = [9007199254740993000]"
  by (simp_all add: candidates_def eval_double)

lemma length_rounded: "length (showNat 9007199254740993024) = 19"
  by (simp add: showNat.simps)

lemma shortestDecimal_rounded: "shortestDecimal 9007199254740993024 = 9007199254740993000"
  unfolding shortestDecimal_def length_rounded Let_def upt_first
  by (simp add: candidates_rounded pick_def upt_conv_Cons del: upt_Suc)

lemma numberToString_rounded:
  "numberToString (Num 9007199254740993024) = ''9007199254740993000''"
  by (simp add: showDouble_def shortestDecimal_rounded Let_def showNat.simps digitChar_def)

lemma lifetime_rounded:
  "cb_storage (AuthCallback 1000 ''#access_token=A&expires_in=9007199254740993'' Map.empty)
     EXPIRY_TIMESTAMP_KEY = Some ''9007199254740993000''"
proof -
  have p: "URLSearchParams (drop 1 ''#access_token=A&expires_in=9007199254740993'') =
     [(''access_token'', ''A''), (''expires_in'', ''9007199254740993'')]"
    by (simp add: URLSearchParams_def parsePair_def formDecode_def)
  show ?thesis
    unfolding AuthCallback_def Let_def p
    by (simp add: params_get_def storeTokens_def parseInt_rounds sum_rounds
          numberToString_rounded del: numberToString.simps plus_js.simps times_js.simps)
qed

text \<open>
  A lifetime of \<open>10^18\<close> seconds: the expiry is printed as \<open>1e+21\<close>, which reads back as 1.
\<close>

lemma parseInt_18: "parseInt ''1000000000000000000'' = Num 1000000000000000000"
  by (simp add: parseInt_def isWhiteSpace1_def isWhiteSpace2_def isWhiteSpace3_def isDigit_def
        digitsVal_def digitVal_def eval_double)

lemma sum_21:
  "plus_js (Num 1000) (times_js (Num 1000000000000000000) (Num 1000))
     = Num 1000000000000000000000"
  by (simp add: eval_double)

lemma candidates_21:
  "candidates 1000000000000000000000 1000000000000000000000 = [1000000000000000000000]"
  by (simp add: candidates_def eval_double)

lemma length_21: "length (showNat 1000000000000000000000) = 22"
  by (simp add: showNat.simps)

lemma showNat_21: "showNat 1000000000000000000000 = ''1000000000000000000000''"
  by (simp add: showNat.simps digitChar_def)

lemma shortestDecimal_21: "shortestDecimal 1000000000000000000000 = 1000000000000000000000"
  unfolding shortestDecimal_def length_21 Let_def upt_first
  by (simp add: candidates_21 pick_def del: upt_Suc)

lemma numberToString_21: "numberToString (Num 1000000000000000000000) = ''1e+21''"
  by (simp add: showDouble_def shortestDecimal_21 showNat_21 Let_def showNat.simps digitChar_def)

lemma parseInt_exponent_text: "parseInt ''1e+21'' = Num 1"
  by (simp add: parseInt_def isWhiteSpace1_def isWhiteSpace2_def isWhiteSpace3_def isDigit_def
        digitsVal_def digitVal_def toDouble_exact)

lemma lifetime_exponent_form:
  "cb_storage (AuthCallback 1000 ''#access_token=A&expires_in=1000000000000000000'' Map.empty)
     EXPIRY_TIMESTAMP_KEY = Some ''1e+21'' \<and>
   getExpiryTimestamp (cb_storage (AuthCallback 1000
     ''#access_token=A&expires_in=1000000000000000000'' Map.empty)) = Some (Num 1)"
proof -
  have p: "URLSearchParams (drop 1 ''#access_token=A&expires_in=1000000000000000000'') =
     [(''access_token'', ''A''), (''expires_in'', ''1000000000000000000'')]"
    by (simp add: URLSearchParams_def parsePair_def formDecode_def)
  have s: "cb_storage (AuthCallback 1000 ''#access_token=A&expires_in=1000000000000000000''
             Map.empty) EXPIRY_TIMESTAMP_KEY = Some ''1e+21''"
    unfolding AuthCallback_def Let_def p
    by (simp add: params_get_def storeTokens_def parseInt_18 sum_21 numberToString_21
          del: numberToString.simps plus_js.simps times_js.simps)
  show ?thesis
    using s by (simp add: getExpiryTimestamp_def parseInt_exponent_text)
qed

text \<open>An access token \<open>%FF\<close>, which is not UTF-8: the replacement character is stored.\<close>

lemma token_ill_formed:
  "getAccessToken (cb_storage (AuthCallback 1000 ''#access_token=%FF&expires_in=3600'' Map.empty))
     = Some replacementChar"
proof -
  have p: "URLSearchParams (drop 1 ''#access_token=%FF&expires_in=3600'') =
     [(''access_token'', replacementChar), (''expires_in'', ''3600'')]"
    by (simp add: URLSearchParams_def parsePair_def formDecode_def hexVal_def leadByte_def)
  show ?thesis
    unfolding AuthCallback_def Let_def p
    by (simp add: params_get_def storeTokens_def getAccessToken_def keys_distinct
          replacementChar_def)
qed

section \<open>The expiry policy\<close>



section \<open>The token store\<close>

text \<open>
  C5 (as the code has it).  A save with a missing access token or a missing lifetime value
  (\<open>null\<close> or empty) leaves the storage as it was.  \<open>storeTokens\<close> returns \<open>undefined\<close> to
  its caller on every path, after a rejected save as after a successful one: the caller
  is told nothing.
\<close>

theorem malformed_save_is_silent:
  "(\<not> truthyStr accessToken \<or> \<not> truthyStr expiresIn \<longrightarrow>
      snd (storeTokens now accessToken refreshToken expiresIn ls) = ls) \<and>
   fst (storeTokens now accessToken refreshToken expiresIn ls) = JUndefined"
  by (simp add: storeTokens_def Let_def)

theorem malformed_save_is_silent_witness:
  "snd (storeTokens 0 None (Some ''R2'') (Some ''3600'') storedSession) = storedSession \<and>
   snd (storeTokens 0 (Some ''A'') (Some ''R2'') None storedSession) = storedSession \<and>
   fst (storeTokens 0 None (Some ''R2'') (Some ''3600'') storedSession) = JUndefined"
  using malformed_save_is_silent [of None "Some ''3600''" 0 "Some ''R2''" storedSession]
        malformed_save_is_silent [of "Some ''A''" None 0 "Some ''R2''" storedSession]
  by simp

text \<open>
  C5 as stated fails: a save without an access token hands its caller the same value,
  \<open>undefined\<close>, as a save with one, so no malformed-credential condition reaches the
  caller.
\<close>

theorem malformed_save_report_counterexample:
  "fst (storeTokens 0 None None (Some ''3600'') storedSession) = JUndefined \<and>
   fst (storeTokens 0 (Some ''A'') None (Some ''3600'') storedSession) = JUndefined"
  by (simp add: storeTokens_def Let_def)

section \<open>The gateway client\<close>

text \<open>
  C1.  Whenever the request a call of \<open>fetchAPI\<close> sent is answered with status 401, the
  three token entries are gone afterwards, the session is logged out (\<open>isLoggedIn\<close> false,
  \<open>userData\<close> null), and the caller gets \<open>null\<close> while the error state holds the
  session-expired message.
\<close>

theorem unauthorized_forces_logout:
  assumes "fetchAPI now backend endpoint opts w = (r, w')"
    and "backend (last (network w')) = Response 401 body"
  shows "r = JNull \<and>
         localStorage w' ACCESS_TOKEN_KEY = None \<and>
         localStorage w' REFRESH_TOKEN_KEY = None \<and>
         localStorage w' EXPIRY_TIMESTAMP_KEY = None \<and>
         isLoggedIn w' = False \<and> userData w' = JNull \<and>
         error w' = JStr ''Your session has expired or is invalid. Please log in again.''"
proof -
  let ?sent = "fst (requestInterceptor now (buildConfig endpoint opts) (localStorage w))"
  have "last (network w') = ?sent"
    using fetchAPI_sent [of now backend endpoint opts w] assms(1) by simp
  with assms(2) have b: "backend ?sent = Response 401 body" by simp
  show ?thesis
    using assms(1) b
    by (auto simp: fetchAPI_def fetchAPI_catch_def Let_def clearTokens_keys)
qed

theorem unauthorized_forces_logout_witness:
  "isLoggedIn loggedInWorld \<and>
   localStorage loggedInWorld ACCESS_TOKEN_KEY = Some ''T'' \<and>
   fst (fetchAPI 0 (answering (Response 401 JNull)) ''/convert'' noOptions loggedInWorld) = JNull \<and>
   localStorage (snd (fetchAPI 0 (answering (Response 401 JNull)) ''/convert'' noOptions loggedInWorld))
     ACCESS_TOKEN_KEY = None \<and>
   isLoggedIn (snd (fetchAPI 0 (answering (Response 401 JNull)) ''/convert'' noOptions loggedInWorld))
     = False \<and>
   error (snd (fetchAPI 0 (answering (Response 401 JNull)) ''/convert'' noOptions loggedInWorld))
     = JStr ''Your session has expired or is invalid. Please log in again.''"
proof -
  let ?p = "fetchAPI 0 (answering (Response 401 JNull)) ''/convert'' noOptions loggedInWorld"
  have a: "?p = (fst ?p, snd ?p)" by simp
  have b: "answering (Response 401 JNull) (last (network (snd ?p))) = Response 401 JNull"
    by (simp add: answering_def)
  have c: "isLoggedIn loggedInWorld"
    by (simp add: loggedInWorld_def)
  have d: "localStorage loggedInWorld ACCESS_TOKEN_KEY = Some ''T''"
    by (simp add: loggedInWorld_def storedSession_def keys_distinct)
  show ?thesis
    using unauthorized_forces_logout [OF a b] c d by simp
qed

text \<open>
  C3.  Every call of \<open>fetchAPI\<close> whose caller passes no \<open>Authorization\<close> header of its own
  (no caller in the application passes one) sends one request, and: with a stored access
  token that is not expired the request carries \<open>Authorization: Bearer\<close> followed by the
  token; with a stored access token that is expired the request carries no
  \<open>Authorization\<close> header and the three token entries are removed; with no stored access
  token the request carries no \<open>Authorization\<close> header.
\<close>

theorem request_authorization:
  assumes "opt_headers opts ''Authorization'' = None"
    and "fetchAPI now backend endpoint opts w = (r, w')"
  shows "network w' = network w @ [last (network w')] \<and>
    (\<forall>token. getAccessToken (localStorage w) = Some token \<and> token \<noteq> [] \<and>
        \<not> isTokenExpired now (localStorage w) \<longrightarrow>
        req_headers (last (network w')) ''Authorization'' = Some (''Bearer '' @ token)) \<and>
    (truthyStr (getAccessToken (localStorage w)) \<and> isTokenExpired now (localStorage w) \<longrightarrow>
        req_headers (last (network w')) ''Authorization'' = None \<and>
        localStorage w' ACCESS_TOKEN_KEY = None \<and>
        localStorage w' REFRESH_TOKEN_KEY = None \<and>
        localStorage w' EXPIRY_TIMESTAMP_KEY = None) \<and>
    (\<not> truthyStr (getAccessToken (localStorage w)) \<longrightarrow>
        req_headers (last (network w')) ''Authorization'' = None)"
proof -
  let ?cfg = "buildConfig endpoint opts"
  let ?sent = "fst (requestInterceptor now ?cfg (localStorage w))"
  have w': "w' = snd (fetchAPI now backend endpoint opts w)"
    using assms(2) by simp
  have net: "network w' = network w @ [?sent]"
    by (simp add: w' fetchAPI_network)
  then have sent: "last (network w') = ?sent" by simp
  have no: "req_headers ?cfg ''Authorization'' = None"
    by (simp add: buildConfig_auth assms(1))
  have 1: "network w' = network w @ [last (network w')]"
    using net by simp
  have 2: "req_headers ?sent ''Authorization'' = Some (''Bearer '' @ token)"
    if "getAccessToken (localStorage w) = Some token" "token \<noteq> []"
       "\<not> isTokenExpired now (localStorage w)" for token
    using that by (simp add: interceptor_cases)
  have 3: "req_headers ?sent ''Authorization'' = None"
    if "truthyStr (getAccessToken (localStorage w))" "isTokenExpired now (localStorage w)"
    using that no by (simp add: interceptor_cases)
  have 4: "localStorage w' = clearTokens (localStorage w)"
    if "truthyStr (getAccessToken (localStorage w))" "isTokenExpired now (localStorage w)"
    using that by (simp add: w' fetchAPI_storage_expired)
  have 5: "req_headers ?sent ''Authorization'' = None"
    if "\<not> truthyStr (getAccessToken (localStorage w))"
    using that no by (simp add: interceptor_cases)
  show ?thesis
    using 1 2 3 4 5 by (simp add: sent clearTokens_keys)
qed

theorem request_authorization_witness:
  "req_headers (last (network (snd (fetchAPI 39999 (answering NoResponse) ''/auth/status''
       noOptions loggedInWorld)))) ''Authorization'' = Some ''Bearer T'' \<and>
   req_headers (last (network (snd (fetchAPI 40000 (answering NoResponse) ''/auth/status''
       noOptions loggedInWorld)))) ''Authorization'' = None \<and>
   localStorage (snd (fetchAPI 40000 (answering NoResponse) ''/auth/status''
       noOptions loggedInWorld)) ACCESS_TOKEN_KEY = None \<and>
   req_headers (last (network (snd (fetchAPI 0 (answering NoResponse) ''/auth/status''
       noOptions (loggedInWorld\<lparr>localStorage := Map.empty\<rparr>))))) ''Authorization'' = None"
proof -
  let ?b = "answering NoResponse"
  let ?p = "fetchAPI 39999 ?b ''/auth/status'' noOptions loggedInWorld"
  let ?q = "fetchAPI 40000 ?b ''/auth/status'' noOptions loggedInWorld"
  let ?e = "loggedInWorld\<lparr>localStorage := Map.empty\<rparr>"
  let ?r = "fetchAPI 0 ?b ''/auth/status'' noOptions ?e"
  have p: "?p = (fst ?p, snd ?p)" and q: "?q = (fst ?q, snd ?q)" and r: "?r = (fst ?r, snd ?r)"
    by simp_all
  have e: "\<not> truthyStr (getAccessToken (localStorage ?e))"
    by (simp add: getAccessToken_def)
  show ?thesis
    using request_authorization [OF noOptions_headers p]
          request_authorization [OF noOptions_headers q]
          request_authorization [OF noOptions_headers r] e
    by (simp add: loggedInWorld_storage storedSession_token storedSession_expired)
qed

section \<open>The session controller\<close>

text \<open>
  C4.  A status check that finds no stored access token, or finds the stored credential
  expired, ends logged out (the three token entries removed, \<open>isLoggedIn\<close> false,
  \<open>userData\<close> null) and hands no request to the transport.  Otherwise it sends one
  \<open>GET /auth/status\<close> request, and when that request is answered by a response with a
  status in \<open>200..299\<close> whose body carries a user record, the session ends logged in
  with that user.
\<close>

theorem status_check:
  assumes "w' = checkAuthStatus now nowSent backend w"
  shows
    "(\<not> truthyStr (getAccessToken (localStorage w)) \<or> isTokenExpired now (localStorage w) \<longrightarrow>
        localStorage w' ACCESS_TOKEN_KEY = None \<and>
        localStorage w' REFRESH_TOKEN_KEY = None \<and>
        localStorage w' EXPIRY_TIMESTAMP_KEY = None \<and>
        isLoggedIn w' = False \<and> userData w' = JNull \<and>
        network w' = network w) \<and>
     (truthyStr (getAccessToken (localStorage w)) \<and> \<not> isTokenExpired now (localStorage w) \<longrightarrow>
        (\<exists>req. network w' = network w @ [req] \<and>
           req_method req = ''GET'' \<and> req_url req = ''/auth/status'' \<and>
           (\<forall>status d. backend req = Response status d \<and> 200 \<le> status \<and> status < 300 \<and>
                truthy (field d ''user'') \<longrightarrow>
              isLoggedIn w' = True \<and> userData w' = field d ''user'')))"
proof -
  have part1: "localStorage w' ACCESS_TOKEN_KEY = None \<and>
        localStorage w' REFRESH_TOKEN_KEY = None \<and>
        localStorage w' EXPIRY_TIMESTAMP_KEY = None \<and>
        isLoggedIn w' = False \<and> userData w' = JNull \<and>
        network w' = network w"
    if "\<not> truthyStr (getAccessToken (localStorage w)) \<or> isTokenExpired now (localStorage w)"
  proof -
    have "w' = w\<lparr>isAuthLoading := False, error := JNull,
                     localStorage := clearTokens (localStorage w), isLoggedIn := False,
                     userData := JNull\<rparr>"
      using that unfolding assms checkAuthStatus_def Let_def by auto
    then show ?thesis
      by (simp add: clearTokens_keys)
  qed
  have part2: "\<exists>req. network w' = network w @ [req] \<and>
           req_method req = ''GET'' \<and> req_url req = ''/auth/status'' \<and>
           (\<forall>status d. backend req = Response status d \<and> 200 \<le> status \<and> status < 300 \<and>
                truthy (field d ''user'') \<longrightarrow>
              isLoggedIn w' = True \<and> userData w' = field d ''user'')"
    if v: "truthyStr (getAccessToken (localStorage w)) \<and> \<not> isTokenExpired now (localStorage w)"
  proof -
    let ?w0 = "w\<lparr>isAuthLoading := True, error := JNull\<rparr>"
    let ?r = "fetchAPI nowSent backend ''/auth/status'' noOptions ?w0"
    let ?req = "fst (requestInterceptor nowSent (buildConfig ''/auth/status'' noOptions)
                       (localStorage w))"
    have net: "network w' = network w @ [?req]"
      using v fetchAPI_network [of nowSent backend "''/auth/status''" noOptions ?w0]
      unfolding assms checkAuthStatus_def Let_def by simp
    have shape: "req_method ?req = ''GET'' \<and> req_url ?req = ''/auth/status''"
      by (simp add: interceptor_cases buildConfig_def noOptions_def)
    have ok: "isLoggedIn w' = True \<and> userData w' = field d ''user''"
      if "backend ?req = Response status d" "200 \<le> status" "status < 300"
         "truthy (field d ''user'')" for status d
    proof -
      have "fst ?r = d"
        using that by (simp add: fetchAPI_def Let_def)
      then show ?thesis
        using v that(4) truthy_field [OF that(4)]
        unfolding assms checkAuthStatus_def Let_def by simp
    qed
    show ?thesis
      using net shape ok by blast
  qed
  show ?thesis
    using part1 part2 by blast
qed

theorem status_check_witness:
  "isLoggedIn (checkAuthStatus 40000 40001
      (answering (Response 200 (JObj [(''user'', JObj [(''id'', JStr ''u1'')])])))
      mountedWorld) = False \<and>
   network (checkAuthStatus 40000 40001
      (answering (Response 200 (JObj [(''user'', JObj [(''id'', JStr ''u1'')])])))
      mountedWorld) = [] \<and>
   localStorage (checkAuthStatus 40000 40001
      (answering (Response 200 (JObj [(''user'', JObj [(''id'', JStr ''u1'')])])))
      mountedWorld) ACCESS_TOKEN_KEY = None \<and>
   isLoggedIn (checkAuthStatus 0 1
      (answering (Response 200 (JObj [(''user'', JObj [(''id'', JStr ''u1'')])])))
      mountedWorld) = True \<and>
   userData (checkAuthStatus 0 1
      (answering (Response 200 (JObj [(''user'', JObj [(''id'', JStr ''u1'')])])))
      mountedWorld) = JObj [(''id'', JStr ''u1'')] \<and>
   length (network (checkAuthStatus 0 1
      (answering (Response 200 (JObj [(''user'', JObj [(''id'', JStr ''u1'')])])))
      mountedWorld)) = 1"
proof -
  let ?d = "JObj [(''user'', JObj [(''id'', JStr ''u1'')])]"
  let ?b = "answering (Response 200 ?d)"
  have net: "network mountedWorld = []"
    by (simp add: mountedWorld_def)
  have f: "field ?d ''user'' = JObj [(''id'', JStr ''u1'')]"
    by simp
  have b: "?b req = Response 200 ?d" for req
    by (simp add: answering_def)
  show ?thesis
    using status_check [of _ 40000 40001 ?b mountedWorld, OF refl]
          status_check [of _ 0 1 ?b mountedWorld, OF refl] b f
    by (auto simp add: mountedWorld_storage storedSession_token storedSession_expired net)
qed

text \<open>
  C9.  Logging out removes the three token entries, sets the session to logged out
  (\<open>isLoggedIn\<close> false, \<open>userData\<close> null), clears the conversion result and the error, and
  hands no request to the transport.
\<close>

theorem logout_is_local:
  "localStorage (handleLogout w) ACCESS_TOKEN_KEY = None \<and>
   localStorage (handleLogout w) REFRESH_TOKEN_KEY = None \<and>
   localStorage (handleLogout w) EXPIRY_TIMESTAMP_KEY = None \<and>
   isLoggedIn (handleLogout w) = False \<and>
   userData (handleLogout w) = JNull \<and>
   results (handleLogout w) = JNull \<and>
   error (handleLogout w) = JNull \<and>
   network (handleLogout w) = network w"
  by (simp add: handleLogout_def clearTokens_keys)

section \<open>The conversion workflow\<close>

text \<open>
  C10.  A conversion submitted with an empty playlist name field sends one \<open>POST /convert\<close>
  request whose body carries \<open>playlist_name\<close> equal to \<open>Converted YouTube Playlist\<close>.
\<close>

theorem default_playlist_name:
  assumes "playlistName w = []"
  shows "\<exists>req. network (handleConvert now backend w) = network w @ [req] \<and>
           req_method req = ''POST'' \<and> req_url req = ''/convert'' \<and>
           field (req_data req) ''playlist_url'' = JStr (playlistUrl w) \<and>
           field (req_data req) ''playlist_name'' = JStr ''Converted YouTube Playlist''"
  using assms
  by (simp add: handleConvert_network interceptor_cases buildConfig_def postData_def)

theorem default_playlist_name_witness:
  "field (req_data (last (network (handleConvert 0 (answering NoResponse) loggedInWorld))))
     ''playlist_name'' = JStr ''Converted YouTube Playlist''"
proof -
  have "playlistName loggedInWorld = []"
    by (simp add: loggedInWorld_def)
  from default_playlist_name [OF this, of 0 "answering NoResponse"]
  show ?thesis by auto
qed

text \<open>
  C6 (as the code has it).  When the request of a conversion is answered by a response
  with a status in \<open>200..299\<close> whose body has a falsy \<open>success\<close>, a truthy \<open>error\<close> and a
  truthy \<open>data\<close> payload, the payload becomes the visible result and the \<open>error\<close> field
  the visible error.
\<close>

theorem partial_payload_retained:
  assumes "w' = handleConvert now backend w"
    and "backend (last (network w')) = Response status d"
    and "200 \<le> status" and "status < 300"
    and "\<not> truthy (field d ''success'')"
    and "truthy (field d ''error'')"
    and "truthy (field d ''data'')"
  shows "results w' = field d ''data'' \<and> error w' = field d ''error''"
proof -
  let ?opts = "\<lparr>opt_method = Some ''POST'', opt_body = postData w, opt_headers = Map.empty\<rparr>"
  let ?w0 = "w\<lparr>isConverting := True, error := JNull, results := JNull\<rparr>"
  let ?sent = "fst (requestInterceptor now (buildConfig ''/convert'' ?opts) (localStorage w))"
  have "last (network w') = ?sent"
    by (simp add: assms(1) handleConvert_network)
  with assms(2) have b: "backend ?sent = Response status d" by simp
  have r: "fst (fetchAPI now backend ''/convert'' ?opts ?w0) = d"
    using b assms(3,4) by (simp add: fetchAPI_def Let_def)
  show ?thesis
    using r assms(5,6,7) truthy_field [OF assms(6)]
    unfolding assms(1) handleConvert_def Let_def by simp
qed

theorem partial_payload_retained_witness:
  "results (handleConvert 0
      (answering (Response 200 (JObj [(''success'', JBool False),
          (''error'', JStr ''Some tracks were not found''), (''data'', partialPayload)])))
      loggedInWorld) = partialPayload \<and>
   field partialPayload ''unmatched_tracks'' = JArr [JStr ''Song A'']"
proof -
  let ?d = "JObj [(''success'', JBool False),
          (''error'', JStr ''Some tracks were not found''), (''data'', partialPayload)]"
  let ?b = "answering (Response 200 ?d)"
  have b: "?b (last (network (handleConvert 0 ?b loggedInWorld))) = Response 200 ?d"
    by (simp add: answering_def)
  have p: "truthy partialPayload" "field partialPayload ''unmatched_tracks'' = JArr [JStr ''Song A'']"
    by (simp_all add: partialPayload_def)
  have "results (handleConvert 0 ?b loggedInWorld) = field ?d ''data''"
    using partial_payload_retained [where backend = ?b and now = 0 and w = loggedInWorld, OF refl b] p
    by simp
  then show ?thesis using p by simp
qed

text \<open>
  C6 as stated fails: the response \<open>{success: false, data: {unmatched_tracks: ["Song A"],
  api_errors: []}}\<close>, which has no \<open>error\<close> field, leaves the visible result \<open>null\<close>.
\<close>

theorem partial_without_error_counterexample:
  "results (handleConvert 0
      (answering (Response 200 (JObj [(''success'', JBool False), (''data'', partialPayload)])))
      loggedInWorld) = JNull"
  by (simp add: handleConvert_def Let_def fetchAPI_def answering_def)

section \<open>The OAuth callback handler\<close>

text \<open>
  C7 (as the code has it).  For a callback fragment with no \<open>error\<close> parameter (or an empty
  one), a non-empty access token, a lifetime value that reads as the integer \<open>n\<close> and no
  refresh token (or an empty one), with the clock reading \<open>now\<close>, the product \<open>n * 1000\<close>
  and the sum \<open>now + n * 1000\<close> all below \<open>2^53\<close> in magnitude (where the arithmetic of
  doubles is exact and a number is printed with all its digits): the storage after the
  handler holds the given access token, no refresh token entry, and as expiry the
  decimal text of \<open>now + n * 1000\<close>, which reads back as that number.
\<close>

theorem callback_stores_credential:
  assumes "params = URLSearchParams (drop 1 hash)"
    and "\<not> truthyStr (params_get params ''error'')"
    and "params_get params ''access_token'' = Some a" and "a \<noteq> []"
    and "params_get params ''expires_in'' = Some e" and "parseInt e = Num n"
    and "\<not> truthyStr (params_get params ''refresh_token'')"
    and "int now < 2 ^ 53" and "\<bar>n * 1000\<bar> < 2 ^ 53" and "\<bar>int now + n * 1000\<bar> < 2 ^ 53"
    and "ls' = cb_storage (AuthCallback now hash ls)"
  shows "getAccessToken ls' = Some a \<and>
         getRefreshToken ls' = None \<and>
         ls' EXPIRY_TIMESTAMP_KEY = Some (showInt (int now + n * 1000)) \<and>
         getExpiryTimestamp ls' = Some (Num (int now + n * 1000))"
proof -
  have e: "e \<noteq> []"
    using assms(6) by (rule parseInt_Num_nonempty)
  have "ls' = snd (storeTokens now (Some a) (params_get params ''refresh_token'') (Some e) ls)"
    using assms(2,3,4,5) e
    unfolding assms(11) assms(1) AuthCallback_def Let_def by simp
  moreover have "plus_js (Num (int now)) (times_js (parseInt e) (Num 1000))
                   = Num (int now + n * 1000)"
    by (simp add: assms(6) toDouble_exact [OF assms(9)] toDouble_exact [OF assms(10)])
  moreover have "numberToString (Num (int now + n * 1000)) = showInt (int now + n * 1000)"
    using assms(10) by (rule numberToString_small)
  ultimately have ls': "ls' = (ls(ACCESS_TOKEN_KEY \<mapsto> a, REFRESH_TOKEN_KEY := None,
                    EXPIRY_TIMESTAMP_KEY \<mapsto> showInt (int now + n * 1000)))"
    using assms(4,7) e by (simp add: storeTokens_def Let_def)
  have 1: "getAccessToken ls' = Some a"
    by (simp add: ls' getAccessToken_def keys_distinct)
  have 2: "getRefreshToken ls' = None"
    by (simp add: ls' getRefreshToken_def keys_distinct)
  have 3: "ls' EXPIRY_TIMESTAMP_KEY = Some (showInt (int now + n * 1000))"
    by (simp add: ls')
  have 4: "getExpiryTimestamp ls' = Some (Num (int now + n * 1000))"
    unfolding getExpiryTimestamp_def Let_def 3
    by (simp only: truthyStr.simps showInt_nonempty parseInt_showInt
          toDouble_exact [OF assms(10)] option.sel not_False_eq_True if_True)
  show ?thesis using 1 2 3 4 by simp
qed

theorem callback_stores_credential_witness:
  "getRefreshToken storedSession = Some ''R'' \<and>
   getAccessToken (cb_storage (AuthCallback 1000 ''#access_token=A&expires_in=3600'' storedSession))
     = Some ''A'' \<and>
   getRefreshToken (cb_storage (AuthCallback 1000 ''#access_token=A&expires_in=3600'' storedSession))
     = None \<and>
   cb_storage (AuthCallback 1000 ''#access_token=A&expires_in=3600'' storedSession)
     EXPIRY_TIMESTAMP_KEY = Some ''3601000'' \<and>
   getExpiryTimestamp (cb_storage (AuthCallback 1000 ''#access_token=A&expires_in=3600''
     storedSession)) = Some (Num 3601000)"
proof -
  let ?params = "[(''access_token'', ''A''), (''expires_in'', ''3600'')]"
  have 1: "?params = URLSearchParams (drop 1 ''#access_token=A&expires_in=3600'')"
    by (simp only: params_example)
  have 2: "\<not> truthyStr (params_get ?params ''error'')"
    by (simp add: params_get_def)
  have 3: "params_get ?params ''access_token'' = Some ''A''"
    by (simp add: params_get_def)
  have 4: "''A'' \<noteq> []" by simp
  have 5: "params_get ?params ''expires_in'' = Some ''3600''"
    by (simp add: params_get_def)
  have 7: "\<not> truthyStr (params_get ?params ''refresh_token'')"
    by (simp add: params_get_def)
  have 8: "int 1000 < 2 ^ 53" by simp
  have 9: "\<bar>(3600::int) * 1000\<bar> < 2 ^ 53" by simp
  have 10: "\<bar>int 1000 + 3600 * 1000\<bar> < 2 ^ 53" by simp
  have r: "getRefreshToken storedSession = Some ''R''"
    by (simp add: getRefreshToken_def storedSession_def keys_distinct)
  have s: "showInt (int 1000 + 3600 * 1000) = ''3601000''"
    by (simp add: showInt_def showNat.simps digitChar_def)
  show ?thesis
    using callback_stores_credential [OF 1 2 3 4 5 parseInt_3600 7 8 9 10 refl, of storedSession]
          r s
    by simp
qed

text \<open>
  C7 as stated fails: a fragment that carries an access token and a lifetime value and no
  refresh token, but also an \<open>error\<close> parameter, takes the error branch, and no access
  token is stored.
\<close>

theorem callback_error_first_counterexample:
  "getAccessToken (cb_storage (AuthCallback 1000
      ''#error=access_denied&access_token=A&expires_in=3600'' Map.empty)) = None"
  by (simp add: AuthCallback_def Let_def URLSearchParams_def parsePair_def formDecode_def
        params_get_def getAccessToken_def clearTokens_def)

text \<open>
  C8.  The callback \<open>#state=xyz\<close> has neither an \<open>error\<close> parameter nor tokens.  Run on a
  browser that still holds the tokens of an earlier login, the handler navigates to
  \<open>/\<close> with the reason \<open>Invalid authentication callback received.\<close> and leaves the
  access token, the refresh token and the expiry entry in the storage: the branch does
  not call \<open>clearTokens\<close>, which the error branch beside it does.
\<close>

theorem malformed_callback_keeps_tokens:
  "getAccessToken (cb_storage (AuthCallback 1000 ''#state=xyz'' storedSession)) = Some ''T'' \<and>
   getRefreshToken (cb_storage (AuthCallback 1000 ''#state=xyz'' storedSession)) = Some ''R'' \<and>
   cb_storage (AuthCallback 1000 ''#state=xyz'' storedSession) EXPIRY_TIMESTAMP_KEY
     = Some ''100000'' \<and>
   navigatePath (AuthCallback 1000 ''#state=xyz'' storedSession) = ''/'' \<and>
   navigateAuthError (AuthCallback 1000 ''#state=xyz'' storedSession)
     = Some ''Invalid authentication callback received.''"
  by (simp add: AuthCallback_def Let_def URLSearchParams_def parsePair_def formDecode_def
        params_get_def getAccessToken_def getRefreshToken_def storedSession_def keys_distinct)

end
